theory Spec2Isabelle
  imports Main "HOL-Library.AList" "HOL-Library.Multiset"
begin

section \<open>Python values\<close>

text \<open>
  The models keep their records as Python dictionaries, read from JSON files or built by
  the user interface. A value is one of the JSON-native Python values or a tuple (the
  song editor builds its sections as tuples). Dictionaries are association lists in
  insertion order; every key is a string. Floating-point values are left out.
\<close>

datatype pyval =
    PNone
  | PBool bool
  | PInt int
  | PStr string
  | PList "pyval list"
  | PTuple "pyval list"
  | PDict "(string \<times> pyval) list"

subsection \<open>Strings\<close>

text \<open>\<open>str.lower\<close> and \<open>str.strip\<close>, on the ASCII range.\<close>

definition lower_char :: "char \<Rightarrow> char" where
  "lower_char c =
     (if (65::nat) \<le> of_char c \<and> of_char c \<le> (90::nat)
      then (case c of Char b0 b1 b2 b3 b4 b5 b6 b7 \<Rightarrow> Char b0 b1 b2 b3 b4 True b6 b7)
      else c)"

definition lower :: "string \<Rightarrow> string" where
  "lower s = map lower_char s"

definition is_space :: "char \<Rightarrow> bool" where
  "is_space c =
     (((9::nat) \<le> of_char c \<and> of_char c \<le> (13::nat)) \<or>
      ((28::nat) \<le> of_char c \<and> of_char c \<le> (32::nat)))"

definition strip :: "string \<Rightarrow> string" where
  "strip s = rev (dropWhile is_space (rev (dropWhile is_space s)))"

subsection \<open>Exceptions\<close>

text \<open>
  \<open>SanctifyError\<close> of \<open>core/exceptions.py\<close>: the constructor stores the module, the
  code and the formatted message. The built-in exceptions that the operations can meet
  are the other constructors of \<open>exn\<close>.
\<close>

record sanctify_error =
  module :: string
  error_code :: string
  message :: string

definition SanctifyError :: "string \<Rightarrow> string \<Rightarrow> string \<Rightarrow> sanctify_error" where
  "SanctifyError m c msg =
     \<lparr>module = m, error_code = c, message = ''['' @ m @ ''] '' @ c @ '': '' @ msg\<rparr>"

datatype exn =
    Sanctify sanctify_error
  | KeyError
  | AttributeError
  | TypeError
  | IndexError
  | OSError
  | JSONDecodeError

text \<open>\<open>str(e)\<close>; for a built-in exception the text is abbreviated to the class name.\<close>

fun exn_str :: "exn \<Rightarrow> string" where
  "exn_str (Sanctify s) = message s"
| "exn_str KeyError = ''KeyError''"
| "exn_str AttributeError = ''AttributeError''"
| "exn_str TypeError = ''TypeError''"
| "exn_str IndexError = ''IndexError''"
| "exn_str OSError = ''OSError''"
| "exn_str JSONDecodeError = ''JSONDecodeError''"

text \<open>\<open>except Exception as e: raise SanctifyError(module, code, prefix + str(e))\<close>\<close>

definition wrap_exception :: "string \<Rightarrow> string \<Rightarrow> string \<Rightarrow> exn \<Rightarrow> exn" where
  "wrap_exception m c prefix e = Sanctify (SanctifyError m c (prefix @ exn_str e))"

text \<open>
  \<open>except SanctifyError as e: raise e\<close> followed by
  \<open>except Exception as e: raise SanctifyError(...)\<close>
\<close>

fun reraise_or_wrap :: "string \<Rightarrow> string \<Rightarrow> string \<Rightarrow> exn \<Rightarrow> exn" where
  "reraise_or_wrap m c prefix (Sanctify s) = Sanctify s"
| "reraise_or_wrap m c prefix e = wrap_exception m c prefix e"

subsection \<open>Operations on values\<close>

text \<open>\<open>d[k]\<close> for a string key: KeyError on a missing key, TypeError off a dictionary.\<close>

fun subscript :: "pyval \<Rightarrow> string \<Rightarrow> exn + pyval" where
  "subscript (PDict d) k = (case map_of d k of Some v \<Rightarrow> Inr v | None \<Rightarrow> Inl KeyError)"
| "subscript v k = Inl TypeError"

text \<open>\<open>d.get(k, default)\<close>\<close>

fun dict_get :: "pyval \<Rightarrow> string \<Rightarrow> pyval \<Rightarrow> exn + pyval" where
  "dict_get (PDict d) k dflt = (case map_of d k of Some v \<Rightarrow> Inr v | None \<Rightarrow> Inr dflt)"
| "dict_get v k dflt = Inl AttributeError"



text \<open>\<open>d[k] = v\<close> on a dictionary keeps the position of an existing key.\<close>

definition dict_set :: "string \<Rightarrow> pyval \<Rightarrow> (string \<times> pyval) list \<Rightarrow> (string \<times> pyval) list" where
  "dict_set k v d = AList.update k v d"


text \<open>Decimal digits of a natural number and of an integer.\<close>

fun show_nat :: "nat \<Rightarrow> string" where
  "show_nat n =
     (if n < 10 then [char_of (48 + n)]
      else show_nat (n div 10) @ [char_of (48 + n mod 10)])"

definition show_int :: "int \<Rightarrow> string" where
  "show_int i = (if i < 0 then ''-'' @ show_nat (nat (- i)) else show_nat (nat i))"

text \<open>
  The text that an f-string inserts for a value: exact for a string, an integer, a bool
  and None, the name of the type for a list, a tuple or a dictionary.
\<close>

fun fmt :: "pyval \<Rightarrow> string" where
  "fmt (PStr s) = s"
| "fmt PNone = ''None''"
| "fmt (PBool b) = (if b then ''True'' else ''False'')"
| "fmt (PInt i) = show_int i"
| "fmt (PList xs) = ''list''"
| "fmt (PTuple xs) = ''tuple''"
| "fmt (PDict d) = ''dict''"


text \<open>The truth value of a value in a condition.\<close>

fun truthy :: "pyval \<Rightarrow> bool" where
  "truthy PNone = False"
| "truthy (PBool b) = b"
| "truthy (PInt i) = (i \<noteq> 0)"
| "truthy (PStr s) = (s \<noteq> [])"
| "truthy (PList xs) = (xs \<noteq> [])"
| "truthy (PTuple xs) = (xs \<noteq> [])"
| "truthy (PDict d) = (d \<noteq> [])"

text \<open>The handlers of an operation, applied to what its \<open>try\<close> block raised.\<close>

definition handle :: "(exn \<Rightarrow> exn) \<Rightarrow> (exn + 'a) \<times> 's \<Rightarrow> (exn + 'a) \<times> 's" where
  "handle h r = (case r of (Inl e, s) \<Rightarrow> (Inl (h e), s) | (Inr x, s) \<Rightarrow> (Inr x, s))"

text \<open>A statement followed by \<open>return x\<close>.\<close>

definition returning :: "'b \<Rightarrow> (exn + 'a) \<times> 's \<Rightarrow> (exn + 'b) \<times> 's" where
  "returning x r = (case r of (Inl e, s) \<Rightarrow> (Inl e, s) | (Inr u, s) \<Rightarrow> (Inr x, s))"

text \<open>\<open>if k not in d: d[k] = src[k]\<close>\<close>

definition dict_default_from :: "string \<Rightarrow> pyval \<Rightarrow> (string \<times> pyval) list \<Rightarrow> exn + (string \<times> pyval) list" where
  "dict_default_from k src d =
     (case map_of d k of
        Some w \<Rightarrow> Inr d
      | None \<Rightarrow> (case subscript src k of Inl e \<Rightarrow> Inl e | Inr v \<Rightarrow> Inr (dict_set k v d)))"

definition has_str :: "(string \<times> pyval) list \<Rightarrow> string \<Rightarrow> bool" where
  "has_str d k = (case map_of d k of Some (PStr s) \<Rightarrow> True | _ \<Rightarrow> False)"

section \<open>Files\<close>

text \<open>
  A file either holds text that \<open>json.load\<close> parses, given by the parsed value, or
  anything else. \<open>read_only\<close> marks the paths at which creating the directory or
  opening the file for writing fails.
\<close>

datatype file_content = Blob | Json pyval

record filesys =
  files :: "string \<Rightarrow> file_content option"
  read_only :: "string \<Rightarrow> bool"

text \<open>
  The value that \<open>json.load\<close> returns for the text that \<open>json.dump\<close> writes: a tuple is
  written as an array and comes back as a list.
\<close>

fun json_doc :: "pyval \<Rightarrow> pyval" where
  "json_doc (PList xs) = PList (map json_doc xs)"
| "json_doc (PTuple xs) = PList (map json_doc xs)"
| "json_doc (PDict kvs) = PDict (map (\<lambda>kv. (fst kv, json_doc (snd kv))) kvs)"
| "json_doc v = v"

text \<open>
  \<open>os.makedirs(os.path.dirname(path), exist_ok=True)\<close>, then
  \<open>with open(path, 'w') as f: json.dump(doc, f)\<close>
\<close>

fun write_json :: "filesys \<Rightarrow> pyval \<Rightarrow> pyval \<Rightarrow> (exn + unit) \<times> filesys" where
  "write_json fs (PStr p) doc =
     (if read_only fs p then (Inl OSError, fs)
      else (Inr (), fs\<lparr>files := (files fs)(p \<mapsto> Json (json_doc doc))\<rparr>))"
| "write_json fs v doc = (Inl TypeError, fs)"

section \<open>Songs (models/song\_model.py)\<close>

record song_model =
  songs :: "pyval list"
  songs_path :: pyval
  song_fs :: filesys

subsection \<open>\_validate\_song\<close>



subsection \<open>\_save\_songs and \_load\_songs\<close>

definition save_songs :: "song_model \<Rightarrow> (exn + unit) \<times> song_model" where
  "save_songs m =
     (case write_json (song_fs m) (songs_path m) (PList (songs m)) of
        (Inl e, fs') \<Rightarrow>
          (Inl (wrap_exception ''SongModel'' ''SAVE_001'' (''Error saving songs to '' @ fmt (songs_path m) @ '': '') e),
           m\<lparr>song_fs := fs'\<rparr>)
      | (Inr u, fs') \<Rightarrow> (Inr (), m\<lparr>song_fs := fs'\<rparr>))"



subsection \<open>get\_song\_by\_title\<close>




subsection \<open>add\_song\<close>




subsection \<open>update\_song\<close>





subsection \<open>delete\_song\<close>



subsection \<open>duplicate\_song\<close>



subsection \<open>Candidates that add\_song rejects\<close>





subsection \<open>A file system and a song model to run the operations on\<close>



subsection \<open>Titles of stored songs\<close>



subsection \<open>Values that JSON holds as they are\<close>


section \<open>Settings (core/settings\_manager.py)\<close>

subsection \<open>\_merge\_settings\<close>

text \<open>
  \<open>result = defaults.copy()\<close>, then the loop over \<open>loaded.items()\<close>; the first argument
  is \<open>result\<close> as the loop has built it so far.
\<close>

fun merge_settings ::
  "(string \<times> pyval) list \<Rightarrow> (string \<times> pyval) list \<Rightarrow> (string \<times> pyval) list" where
  "merge_settings result [] = result"
| "merge_settings result ((key, v) # rest) =
     merge_settings
       (case map_of result key of
          Some r \<Rightarrow>
            (case v of
               PDict l \<Rightarrow>
                 (case r of
                    PDict d \<Rightarrow> dict_set key (PDict (merge_settings d l)) result
                  | _ \<Rightarrow> dict_set key v result)
             | _ \<Rightarrow> dict_set key v result)
        | None \<Rightarrow> dict_set key v result)
       rest"

text \<open>
  The value that the claim gives to a key of \<open>loaded\<close>: the loaded value, merged with the
  default when both are dictionaries.
\<close>

fun merged_value :: "pyval option \<Rightarrow> pyval \<Rightarrow> pyval" where
  "merged_value (Some (PDict d)) (PDict l) = PDict (merge_settings d l)"
| "merged_value dflt v = v"

section \<open>Scripture (models/scripture\_model.py)\<close>


subsection \<open>Integers and iteration\<close>



fun is_nonblank_str :: "pyval \<Rightarrow> bool" where
  "is_nonblank_str (PStr s) = (strip s \<noteq> [])"
| "is_nonblank_str v = False"


subsection \<open>\_validate\_bible\<close>





subsection \<open>get\_bible\_by\_id\<close>


subsection \<open>get\_verses\<close>








subsection \<open>The parts of a validated bible\<close>






section \<open>Media (models/media\_model.py)\<close>

subsection \<open>Paths and files\<close>

text \<open>\<open>os.path.join\<close>, \<open>os.path.basename\<close> and the extension of \<open>os.path.splitext\<close>, on POSIX paths.\<close>

definition path_join :: "string \<Rightarrow> string \<Rightarrow> string" where
  "path_join a b =
     (if b \<noteq> [] \<and> hd b = CHR ''/'' then b
      else if a = [] \<or> last a = CHR ''/'' then a @ b
      else a @ ''/'' @ b)"

definition basename :: "string \<Rightarrow> string" where
  "basename p = rev (takeWhile (\<lambda>c. c \<noteq> CHR ''/'') (rev p))"

definition splitext_ext :: "string \<Rightarrow> string" where
  "splitext_ext p =
     (let name = dropWhile (\<lambda>c. c = CHR ''.'') (basename p)
      in if CHR ''.'' \<in> set name
         then CHR ''.'' # rev (takeWhile (\<lambda>c. c \<noteq> CHR ''.'') (rev name))
         else [])"

text \<open>A path argument of an \<open>os.path\<close> function has to be a string.\<close>

fun as_path :: "pyval \<Rightarrow> exn + string" where
  "as_path (PStr s) = Inr s"
| "as_path v = Inl TypeError"

text \<open>
  \<open>os.path.exists\<close>, \<open>shutil.copy2\<close> (after \<open>os.makedirs\<close> of the target directory),
  \<open>os.rename\<close> and \<open>os.remove\<close>. A directory is an entry of \<open>files\<close> like a file.
\<close>

definition path_exists :: "filesys \<Rightarrow> string \<Rightarrow> bool" where
  "path_exists fs p = (files fs p \<noteq> None)"

definition copy_file :: "filesys \<Rightarrow> string \<Rightarrow> string \<Rightarrow> (exn + unit) \<times> filesys" where
  "copy_file fs src dst =
     (case files fs src of
        None \<Rightarrow> (Inl OSError, fs)
      | Some c \<Rightarrow>
          if read_only fs dst then (Inl OSError, fs)
          else (Inr (), fs\<lparr>files := (files fs)(dst \<mapsto> c)\<rparr>))"

definition rename_file :: "filesys \<Rightarrow> string \<Rightarrow> string \<Rightarrow> (exn + unit) \<times> filesys" where
  "rename_file fs src dst =
     (case files fs src of
        None \<Rightarrow> (Inl OSError, fs)
      | Some c \<Rightarrow>
          if read_only fs dst then (Inl OSError, fs)
          else (Inr (), fs\<lparr>files := ((files fs)(src := None))(dst \<mapsto> c)\<rparr>))"

definition remove_file :: "filesys \<Rightarrow> string \<Rightarrow> (exn + unit) \<times> filesys" where
  "remove_file fs p =
     (case files fs p of
        None \<Rightarrow> (Inl OSError, fs)
      | Some c \<Rightarrow>
          if read_only fs p then (Inl OSError, fs)
          else (Inr (), fs\<lparr>files := (files fs)(p := None)\<rparr>))"

subsection \<open>The model and its formats\<close>

record media_model =
  media :: "pyval list"
  media_dir :: pyval
  media_file :: pyval
  media_fs :: filesys

definition supported_formats :: "(string \<times> string list) list" where
  "supported_formats =
     [(''Images'', [''.jpg'', ''.jpeg'', ''.png'', ''.bmp'']),
      (''Videos'', [''.mp4'', ''.mov'', ''.avi'']),
      (''Gifs'', [''.gif''])]"

text \<open>\<open>v in self.SUPPORTED_FORMATS\<close>: looking a key up hashes it, which a list or a dictionary refuses.\<close>

fun hashable :: "pyval \<Rightarrow> bool" where
  "hashable (PList xs) = False"
| "hashable (PDict d) = False"
| "hashable (PTuple xs) = list_all hashable xs"
| "hashable v = True"

definition in_supported :: "pyval \<Rightarrow> exn + bool" where
  "in_supported v =
     (if \<not> hashable v then Inl TypeError
      else Inr (case v of PStr s \<Rightarrow> map_of supported_formats s \<noteq> None | _ \<Rightarrow> False))"

subsection \<open>\_validate\_media\<close>

definition validate_media_body :: "media_model \<Rightarrow> pyval \<Rightarrow> exn + bool" where
  "validate_media_body m item =
     (case item of
        PDict d \<Rightarrow>
          if \<not> has_str d ''id'' then Inr False
          else if \<not> (case map_of d ''name'' of Some n \<Rightarrow> is_nonblank_str n | None \<Rightarrow> False) then Inr False
          else
          (case map_of d ''path'' of
             Some (PStr p) \<Rightarrow>
               (case as_path (media_dir m) of
                  Inl e \<Rightarrow> Inl e
                | Inr dir \<Rightarrow>
                    if \<not> path_exists (media_fs m) (path_join dir p) then Inr False
                    else
                    (case map_of d ''category'' of
                       None \<Rightarrow> Inr False
                     | Some c \<Rightarrow>
                         (case in_supported c of
                            Inl e \<Rightarrow> Inl e
                          | Inr False \<Rightarrow> Inr False
                          | Inr True \<Rightarrow>
                              Inr (has_str d ''tags'' \<and>
                                   (case map_of d ''scaling'' of
                                      Some s \<Rightarrow> s \<in> set [PStr ''stretch'', PStr ''fit'', PStr ''fill'']
                                    | None \<Rightarrow> False) \<and>
                                   has_str d ''created_at'' \<and>
                                   has_str d ''updated_at'' \<and>
                                   (case map_of d ''is_logo'' of Some (PBool b) \<Rightarrow> True | _ \<Rightarrow> False)))))
           | _ \<Rightarrow> Inr False)
      | _ \<Rightarrow> Inr False)"

definition validate_media :: "media_model \<Rightarrow> pyval \<Rightarrow> exn + bool" where
  "validate_media m item =
     (case validate_media_body m item of
        Inl e \<Rightarrow> Inl (wrap_exception ''MediaModel'' ''VALIDATE_001'' ''Error validating media: '' e)
      | Inr b \<Rightarrow> Inr b)"

subsection \<open>\_save\_media and get\_media\_by\_id\<close>

definition save_media :: "media_model \<Rightarrow> (exn + unit) \<times> media_model" where
  "save_media m =
     (case write_json (media_fs m) (media_file m) (PList (media m)) of
        (Inl e, fs') \<Rightarrow>
          (Inl (wrap_exception ''MediaModel'' ''SAVE_001''
                  (''Error saving media to '' @ fmt (media_file m) @ '': '') e),
           m\<lparr>media_fs := fs'\<rparr>)
      | (Inr u, fs') \<Rightarrow> (Inr (), m\<lparr>media_fs := fs'\<rparr>))"

text \<open>\<open>next((m for m in self.media if m["id"] == media_id), None)\<close>\<close>

fun find_media :: "string \<Rightarrow> pyval list \<Rightarrow> exn + pyval option" where
  "find_media media_id [] = Inr None"
| "find_media media_id (x # rest) =
     (case subscript x ''id'' of
        Inl e \<Rightarrow> Inl e
      | Inr i \<Rightarrow> if i = PStr media_id then Inr (Some x) else find_media media_id rest)"

definition get_media_by_id :: "media_model \<Rightarrow> string \<Rightarrow> exn + pyval option" where
  "get_media_by_id m media_id =
     (case find_media media_id (media m) of
        Inl e \<Rightarrow> Inl (wrap_exception ''MediaModel'' ''GET_BY_ID_001''
                        (''Error retrieving media by ID '' @ media_id @ '': '') e)
      | Inr r \<Rightarrow> Inr r)"

subsection \<open>set\_logo\<close>

text \<open>
  \<open>for m in self.media: m["is_logo"] = (m["id"] == media_id)\<close>: the records are changed
  in place, so the ones before a record that raises stay changed.
\<close>

fun set_logo_loop :: "string \<Rightarrow> pyval list \<Rightarrow> (exn + unit) \<times> pyval list" where
  "set_logo_loop media_id [] = (Inr (), [])"
| "set_logo_loop media_id (x # rest) =
     (case subscript x ''id'' of
        Inl e \<Rightarrow> (Inl e, x # rest)
      | Inr i \<Rightarrow>
          (case x of
             PDict d \<Rightarrow>
               (case set_logo_loop media_id rest of
                  (r, rest') \<Rightarrow> (r, PDict (dict_set ''is_logo'' (PBool (i = PStr media_id)) d) # rest'))
           | _ \<Rightarrow> (Inl TypeError, x # rest)))"

definition set_logo_body :: "string \<Rightarrow> media_model \<Rightarrow> (exn + bool) \<times> media_model" where
  "set_logo_body media_id m =
     (case get_media_by_id m media_id of
        Inl e \<Rightarrow> (Inl e, m)
      | Inr found \<Rightarrow>
     (case (case found of
              None \<Rightarrow> Inr True
            | Some item \<Rightarrow>
                if \<not> truthy item then Inr True
                else (case subscript item ''category'' of
                        Inl e \<Rightarrow> Inl e
                      | Inr c \<Rightarrow> Inr (c \<noteq> PStr ''Images''))) of
        Inl e \<Rightarrow> (Inl e, m)
      | Inr True \<Rightarrow>
          (Inl (Sanctify (SanctifyError ''MediaModel'' ''SET_LOGO_001''
                  (''Invalid logo media: '' @ media_id @ '' (must be an image)''))), m)
      | Inr False \<Rightarrow>
          (case set_logo_loop media_id (media m) of
             (Inl e, items) \<Rightarrow> (Inl e, m\<lparr>media := items\<rparr>)
           | (Inr u, items) \<Rightarrow> returning True (save_media (m\<lparr>media := items\<rparr>)))))"

definition set_logo :: "string \<Rightarrow> media_model \<Rightarrow> (exn + bool) \<times> media_model" where
  "set_logo media_id m =
     handle (reraise_or_wrap ''MediaModel'' ''SET_LOGO_002'' ''Error setting logo: '')
       (set_logo_body media_id m)"

subsection \<open>add\_media\<close>

text \<open>\<open>any(m["path"] == path for m in self.media)\<close>\<close>

fun any_path :: "string \<Rightarrow> pyval list \<Rightarrow> exn + bool" where
  "any_path p [] = Inr False"
| "any_path p (x # rest) =
     (case subscript x ''path'' of
        Inl e \<Rightarrow> Inl e
      | Inr q \<Rightarrow> if q = PStr p then Inr True else any_path p rest)"

text \<open>\<open>try: os.remove(path)\<close> with \<open>except Exception: pass\<close>\<close>

definition try_remove :: "media_model \<Rightarrow> string \<Rightarrow> media_model" where
  "try_remove m p = m\<lparr>media_fs := snd (remove_file (media_fs m) p)\<rparr>"

text \<open>
  The body of the \<open>try\<close> block. \<open>new_id\<close> is \<open>str(uuid.uuid4())\<close>; \<open>created\<close> and
  \<open>updated\<close> are the two readings of \<open>datetime.now().isoformat()\<close>.
\<close>

definition add_media_body ::
  "string \<Rightarrow> string \<Rightarrow> string \<Rightarrow> string \<Rightarrow> string \<Rightarrow> string \<Rightarrow> string \<Rightarrow> string \<Rightarrow>
   media_model \<Rightarrow> (exn + pyval) \<times> media_model" where
  "add_media_body new_id created updated source_path category display_name tags scaling m =
     (let ext = lower (splitext_ext source_path) in
      if \<not> list_ex (\<lambda>formats. ext \<in> set (snd formats)) supported_formats then
        (Inl (Sanctify (SanctifyError ''MediaModel'' ''ADD_001'' (''Unsupported media format: '' @ ext))), m)
      else if map_of supported_formats category = None then
        (Inl (Sanctify (SanctifyError ''MediaModel'' ''ADD_002'' (''Invalid category: '' @ category))), m)
      else
      (let name = (if display_name \<noteq> [] then display_name else basename source_path);
           filename = new_id @ ext
       in case as_path (media_dir m) of
            Inl e \<Rightarrow> (Inl e, m)
          | Inr dir \<Rightarrow>
       (let target_path = path_join (path_join dir category) filename in
        case copy_file (media_fs m) source_path target_path of
          (Inl e, fs') \<Rightarrow>
            (Inl (wrap_exception ''MediaModel'' ''ADD_003''
                    (''Failed to copy media file '' @ source_path @ '' to '' @ target_path @ '': '') e), m)
        | (Inr u, fs') \<Rightarrow>
       (let m1 = m\<lparr>media_fs := fs'\<rparr>;
            media_data = PDict
              [(''id'', PStr new_id),
               (''name'', PStr name),
               (''path'', PStr (path_join category filename)),
               (''category'', PStr category),
               (''tags'', PStr (strip tags)),
               (''scaling'', PStr (lower scaling)),
               (''created_at'', PStr created),
               (''updated_at'', PStr updated),
               (''is_logo'', PBool False)]
        in case any_path (path_join category filename) (media m1) of
             Inl e \<Rightarrow> (Inl e, m1)
           | Inr True \<Rightarrow>
               (Inl (Sanctify (SanctifyError ''MediaModel'' ''ADD_004''
                       (''Media already exists: '' @ target_path))), try_remove m1 target_path)
           | Inr False \<Rightarrow>
       (case validate_media m1 media_data of
          Inl e \<Rightarrow> (Inl e, m1)
        | Inr False \<Rightarrow>
            (Inl (Sanctify (SanctifyError ''MediaModel'' ''ADD_005''
                    (''Invalid media data for '' @ name))), try_remove m1 target_path)
        | Inr True \<Rightarrow>
            returning media_data (save_media (m1\<lparr>media := media m1 @ [media_data]\<rparr>)))))))"

definition add_media ::
  "string \<Rightarrow> string \<Rightarrow> string \<Rightarrow> string \<Rightarrow> string \<Rightarrow> string \<Rightarrow> string \<Rightarrow> string \<Rightarrow>
   media_model \<Rightarrow> (exn + pyval) \<times> media_model" where
  "add_media new_id created updated source_path category display_name tags scaling m =
     handle (reraise_or_wrap ''MediaModel'' ''ADD_006'' ''Error adding media: '')
       (add_media_body new_id created updated source_path category display_name tags scaling m)"

subsection \<open>update\_media\<close>

text \<open>\<open>media_data.copy()\<close> followed by an item assignment: a dictionary is needed.\<close>

fun dict_copy :: "pyval \<Rightarrow> exn + (string \<times> pyval) list" where
  "dict_copy (PDict d) = Inr d"
| "dict_copy (PList xs) = Inl TypeError"
| "dict_copy v = Inl AttributeError"

text \<open>
  The assignments from the stored record, in the order of the source: \<open>id\<close>, \<open>path\<close>,
  \<open>created_at\<close>, \<open>updated_at\<close>, \<open>is_logo\<close>, then the defaults for \<open>category\<close>,
  \<open>name\<close>, \<open>tags\<close> and \<open>scaling\<close>.
\<close>

definition update_media_fill :: "string \<Rightarrow> pyval \<Rightarrow> (string \<times> pyval) list \<Rightarrow> exn + (string \<times> pyval) list" where
  "update_media_fill now item d =
     (case subscript item ''id'' of Inl e \<Rightarrow> Inl e | Inr i \<Rightarrow>
     (case subscript item ''path'' of Inl e \<Rightarrow> Inl e | Inr p \<Rightarrow>
     (case subscript item ''created_at'' of Inl e \<Rightarrow> Inl e | Inr c \<Rightarrow>
     (case subscript item ''is_logo'' of Inl e \<Rightarrow> Inl e | Inr l \<Rightarrow>
     (case dict_default_from ''category'' item
             (dict_set ''is_logo'' l (dict_set ''updated_at'' (PStr now)
               (dict_set ''created_at'' c (dict_set ''path'' p (dict_set ''id'' i d))))) of
        Inl e \<Rightarrow> Inl e | Inr d1 \<Rightarrow>
     (case dict_default_from ''name'' item d1 of Inl e \<Rightarrow> Inl e | Inr d2 \<Rightarrow>
     (case dict_default_from ''tags'' item d2 of Inl e \<Rightarrow> Inl e | Inr d3 \<Rightarrow>
        dict_default_from ''scaling'' item d3)))))))"

text \<open>
  The renaming step. The comparisons \<open>!=\<close> are taken structurally. The target handed to
  \<open>os.rename\<close> is \<open>os.path.join(media_dir, new_path)\<close>, where \<open>new_path\<close> already starts
  with \<open>media_dir\<close>.
\<close>

definition update_media_rename ::
  "string \<Rightarrow> pyval \<Rightarrow> (string \<times> pyval) list \<Rightarrow> media_model \<Rightarrow>
   (exn + (string \<times> pyval) list) \<times> media_model" where
  "update_media_rename media_id item d m =
     (case subscript (PDict d) ''name'' of Inl e \<Rightarrow> (Inl e, m) | Inr n \<Rightarrow>
     (case subscript item ''name'' of Inl e \<Rightarrow> (Inl e, m) | Inr n0 \<Rightarrow>
     (case (if n \<noteq> n0 then Inr True
            else (case subscript (PDict d) ''category'' of Inl e \<Rightarrow> Inl e | Inr c \<Rightarrow>
                 (case subscript item ''category'' of Inl e \<Rightarrow> Inl e | Inr c0 \<Rightarrow> Inr (c \<noteq> c0)))) of
        Inl e \<Rightarrow> (Inl e, m)
      | Inr False \<Rightarrow> (Inr d, m)
      | Inr True \<Rightarrow>
     (case subscript item ''path'' of Inl e \<Rightarrow> (Inl e, m) | Inr p0 \<Rightarrow>
     (case as_path p0 of Inl e \<Rightarrow> (Inl e, m) | Inr old_path \<Rightarrow>
     (case as_path (media_dir m) of Inl e \<Rightarrow> (Inl e, m) | Inr dir \<Rightarrow>
     (case subscript (PDict d) ''category'' of Inl e \<Rightarrow> (Inl e, m) | Inr c \<Rightarrow>
     (case as_path c of Inl e \<Rightarrow> (Inl e, m) | Inr cat \<Rightarrow>
       (let new_filename = media_id @ splitext_ext old_path;
            new_path = path_join (path_join dir cat) new_filename
        in case rename_file (media_fs m) (path_join dir old_path) (path_join dir new_path) of
             (Inl e, fs') \<Rightarrow>
               (Inl (wrap_exception ''MediaModel'' ''UPDATE_002''
                       (''Failed to rename media from '' @ old_path @ '' to '' @ new_path @ '': '') e), m)
           | (Inr u, fs') \<Rightarrow>
               (Inr (dict_set ''path'' (PStr (path_join cat new_filename)) d),
                m\<lparr>media_fs := fs'\<rparr>))))))))))"

definition update_media_body :: "string \<Rightarrow> string \<Rightarrow> pyval \<Rightarrow> media_model \<Rightarrow> (exn + bool) \<times> media_model" where
  "update_media_body now media_id media_data m =
     (case get_media_by_id m media_id of
        Inl e \<Rightarrow> (Inl e, m)
      | Inr None \<Rightarrow>
          (Inl (Sanctify (SanctifyError ''MediaModel'' ''UPDATE_001'' (''Media not found: '' @ media_id))), m)
      | Inr (Some item) \<Rightarrow>
     if \<not> truthy item then
          (Inl (Sanctify (SanctifyError ''MediaModel'' ''UPDATE_001'' (''Media not found: '' @ media_id))), m)
     else
     (case dict_copy media_data of
        Inl e \<Rightarrow> (Inl e, m)
      | Inr d \<Rightarrow>
     (case update_media_fill now item d of
        Inl e \<Rightarrow> (Inl e, m)
      | Inr d1 \<Rightarrow>
     (case update_media_rename media_id item d1 m of
        (Inl e, m1) \<Rightarrow> (Inl e, m1)
      | (Inr d2, m1) \<Rightarrow>
     (case validate_media m1 (PDict d2) of
        Inl e \<Rightarrow> (Inl e, m1)
      | Inr False \<Rightarrow>
          (case subscript (PDict d2) ''name'' of
             Inl e \<Rightarrow> (Inl e, m1)
           | Inr n \<Rightarrow>
               (Inl (Sanctify (SanctifyError ''MediaModel'' ''UPDATE_003''
                       (''Invalid media data for '' @ fmt n))), m1))
      | Inr True \<Rightarrow>
          returning True (save_media (m1\<lparr>media := remove1 item (media m1) @ [PDict d2]\<rparr>)))))))"

definition update_media :: "string \<Rightarrow> string \<Rightarrow> pyval \<Rightarrow> media_model \<Rightarrow> (exn + bool) \<times> media_model" where
  "update_media now media_id media_data m =
     handle (reraise_or_wrap ''MediaModel'' ''UPDATE_004'' ''Error updating media: '')
       (update_media_body now media_id media_data m)"

subsection \<open>delete\_media\<close>

definition delete_media_body :: "string \<Rightarrow> media_model \<Rightarrow> (exn + bool) \<times> media_model" where
  "delete_media_body media_id m =
     (case get_media_by_id m media_id of
        Inl e \<Rightarrow> (Inl e, m)
      | Inr None \<Rightarrow>
          (Inl (Sanctify (SanctifyError ''MediaModel'' ''DELETE_001'' (''Media not found: '' @ media_id))), m)
      | Inr (Some item) \<Rightarrow>
     if \<not> truthy item then
          (Inl (Sanctify (SanctifyError ''MediaModel'' ''DELETE_001'' (''Media not found: '' @ media_id))), m)
     else
     (case (case as_path (media_dir m) of Inl e \<Rightarrow> (Inl e, media_fs m) | Inr dir \<Rightarrow>
           (case subscript item ''path'' of Inl e \<Rightarrow> (Inl e, media_fs m) | Inr p \<Rightarrow>
           (case as_path p of Inl e \<Rightarrow> (Inl e, media_fs m) | Inr path \<Rightarrow>
              remove_file (media_fs m) (path_join dir path)))) of
        (Inl e, fs') \<Rightarrow>
          (case subscript item ''path'' of
             Inl e' \<Rightarrow> (Inl e', m)
           | Inr p \<Rightarrow>
               (Inl (wrap_exception ''MediaModel'' ''DELETE_002''
                       (''Failed to delete media file '' @ fmt p @ '': '') e), m))
      | (Inr u, fs') \<Rightarrow>
          returning True (save_media (m\<lparr>media := remove1 item (media m), media_fs := fs'\<rparr>))))"

definition delete_media :: "string \<Rightarrow> media_model \<Rightarrow> (exn + bool) \<times> media_model" where
  "delete_media media_id m =
     handle (reraise_or_wrap ''MediaModel'' ''DELETE_003'' ''Error deleting media: '')
       (delete_media_body media_id m)"

subsection \<open>duplicate\_media\<close>

text \<open>\<open>s.rsplit('.', 1)\<close>, on a value, and \<open>xs[i]\<close> on the list it gives.\<close>

definition rsplit_dot :: "string \<Rightarrow> string list" where
  "rsplit_dot s =
     (if CHR ''.'' \<in> set s
      then [rev (tl (dropWhile (\<lambda>c. c \<noteq> CHR ''.'') (rev s))),
            rev (takeWhile (\<lambda>c. c \<noteq> CHR ''.'') (rev s))]
      else [s])"

fun str_rsplit_dot :: "pyval \<Rightarrow> exn + string list" where
  "str_rsplit_dot (PStr s) = Inr (rsplit_dot s)"
| "str_rsplit_dot v = Inl AttributeError"

definition index_list :: "'a list \<Rightarrow> nat \<Rightarrow> exn + 'a" where
  "index_list xs i = (if i < length xs then Inr (xs ! i) else Inl IndexError)"

text \<open>
  \<open>f"{media['name'].rsplit('.', 1)[0]} (Copy).{media['name'].rsplit('.', 1)[1]}"\<close>
\<close>

definition copy_name :: "pyval \<Rightarrow> exn + string" where
  "copy_name item =
     (case subscript item ''name'' of Inl e \<Rightarrow> Inl e | Inr n \<Rightarrow>
     (case str_rsplit_dot n of Inl e \<Rightarrow> Inl e | Inr parts \<Rightarrow>
     (case index_list parts 0 of Inl e \<Rightarrow> Inl e | Inr a \<Rightarrow>
     (case index_list parts 1 of Inl e \<Rightarrow> Inl e | Inr b \<Rightarrow>
        Inr (a @ '' (Copy).'' @ b)))))"

definition duplicate_media_body ::
  "string \<Rightarrow> string \<Rightarrow> string \<Rightarrow> string \<Rightarrow> media_model \<Rightarrow> (exn + pyval) \<times> media_model" where
  "duplicate_media_body new_id created updated media_id m =
     (case get_media_by_id m media_id of
        Inl e \<Rightarrow> (Inl e, m)
      | Inr None \<Rightarrow>
          (Inl (Sanctify (SanctifyError ''MediaModel'' ''DUPLICATE_001'' (''Media not found: '' @ media_id))), m)
      | Inr (Some item) \<Rightarrow>
     if \<not> truthy item then
          (Inl (Sanctify (SanctifyError ''MediaModel'' ''DUPLICATE_001'' (''Media not found: '' @ media_id))), m)
     else
     (case subscript item ''path'' of Inl e \<Rightarrow> (Inl e, m) | Inr p0 \<Rightarrow>
     (case as_path p0 of Inl e \<Rightarrow> (Inl e, m) | Inr old_path \<Rightarrow>
     (case as_path (media_dir m) of Inl e \<Rightarrow> (Inl e, m) | Inr dir \<Rightarrow>
     (case subscript item ''category'' of Inl e \<Rightarrow> (Inl e, m) | Inr c \<Rightarrow>
     (case as_path c of Inl e \<Rightarrow> (Inl e, m) | Inr cat \<Rightarrow>
     (case copy_name item of Inl e \<Rightarrow> (Inl e, m) | Inr new_name \<Rightarrow>
       (let new_filename = new_id @ splitext_ext old_path;
            new_path = path_join (path_join dir cat) new_filename
        in case copy_file (media_fs m) (path_join dir old_path) new_path of
             (Inl e, fs') \<Rightarrow>
               (Inl (wrap_exception ''MediaModel'' ''DUPLICATE_002''
                       (''Failed to duplicate media '' @ old_path @ '' to '' @ new_path @ '': '') e), m)
           | (Inr u, fs') \<Rightarrow>
       (let m1 = m\<lparr>media_fs := fs'\<rparr> in
        case subscript item ''tags'' of Inl e \<Rightarrow> (Inl e, m1) | Inr tags \<Rightarrow>
       (case subscript item ''scaling'' of Inl e \<Rightarrow> (Inl e, m1) | Inr scaling \<Rightarrow>
       (let new_media = PDict
              [(''id'', PStr new_id),
               (''name'', PStr new_name),
               (''path'', PStr (path_join cat new_filename)),
               (''category'', c),
               (''tags'', tags),
               (''scaling'', scaling),
               (''created_at'', PStr created),
               (''updated_at'', PStr updated),
               (''is_logo'', PBool False)]
        in case validate_media m1 new_media of
             Inl e \<Rightarrow> (Inl e, m1)
           | Inr False \<Rightarrow>
               (Inl (Sanctify (SanctifyError ''MediaModel'' ''DUPLICATE_003''
                       (''Invalid duplicated media data for '' @ new_name))), try_remove m1 new_path)
           | Inr True \<Rightarrow>
               returning new_media (save_media (m1\<lparr>media := media m1 @ [new_media]\<rparr>)))))))))))))"

definition duplicate_media ::
  "string \<Rightarrow> string \<Rightarrow> string \<Rightarrow> string \<Rightarrow> media_model \<Rightarrow> (exn + pyval) \<times> media_model" where
  "duplicate_media new_id created updated media_id m =
     handle (reraise_or_wrap ''MediaModel'' ''DUPLICATE_004'' ''Error duplicating media: '')
       (duplicate_media_body new_id created updated media_id m)"

subsection \<open>\_load\_media\<close>

fun load_media_items :: "media_model \<Rightarrow> pyval list \<Rightarrow> pyval list \<Rightarrow> (exn + unit) \<times> pyval list" where
  "load_media_items m [] acc = (Inr (), acc)"
| "load_media_items m (item # rest) acc =
     (case validate_media m item of
        Inl e \<Rightarrow> (Inl e, acc)
      | Inr True \<Rightarrow> load_media_items m rest (acc @ [item])
      | Inr False \<Rightarrow>
          (case dict_get item ''name'' (PStr ''Unknown'') of
             Inl e \<Rightarrow> (Inl e, acc)
           | Inr n \<Rightarrow> load_media_items m rest acc))"

definition load_media :: "media_model \<Rightarrow> (exn + unit) \<times> media_model" where
  "load_media m =
     (case media_file m of
        PStr p \<Rightarrow>
          (case files (media_fs m) p of
             None \<Rightarrow> save_media (m\<lparr>media := []\<rparr>)
           | Some Blob \<Rightarrow>
               (Inl (wrap_exception ''MediaModel'' ''LOAD_002''
                       (''Error decoding JSON from '' @ p @ '': '') JSONDecodeError),
                m\<lparr>media := []\<rparr>)
           | Some (Json (PList loaded)) \<Rightarrow>
               (case load_media_items m loaded [] of
                  (Inl e, acc) \<Rightarrow>
                    (Inl (wrap_exception ''MediaModel'' ''LOAD_003''
                            (''Error loading media from '' @ p @ '': '') e),
                     m\<lparr>media := acc\<rparr>)
                | (Inr u, acc) \<Rightarrow> (Inr (), m\<lparr>media := acc\<rparr>))
           | Some (Json v) \<Rightarrow>
               (Inl (wrap_exception ''MediaModel'' ''LOAD_003''
                       (''Error loading media from '' @ p @ '': '')
                       (Sanctify (SanctifyError ''MediaModel'' ''LOAD_001''
                          (''Media file '' @ p @ '' is not a list'')))),
                m\<lparr>media := []\<rparr>))
      | v \<Rightarrow>
          (Inl (Sanctify (SanctifyError ''MediaModel'' ''PATH_002''
                  (''Invalid media metadata path type: '' @ fmt v @ '', expected string''))),
           m))"

subsection \<open>Logos and ids of stored media\<close>

text \<open>
  Whether a record counts as the logo (\<open>m.get("is_logo", False)\<close> in \<open>get_logo_media\<close>),
  the \<open>id\<close> entry of a record, and the collections in which at most one record is the
  logo.
\<close>

fun is_logo :: "pyval \<Rightarrow> bool" where
  "is_logo (PDict d) = (case map_of d ''is_logo'' of Some v \<Rightarrow> truthy v | None \<Rightarrow> False)"
| "is_logo v = False"

fun media_id_of :: "pyval \<Rightarrow> pyval option" where
  "media_id_of (PDict d) = map_of d ''id''"
| "media_id_of v = None"

definition has_id :: "pyval \<Rightarrow> bool" where
  "has_id x = (media_id_of x \<noteq> None)"

definition at_most_one_logo :: "pyval list \<Rightarrow> bool" where
  "at_most_one_logo xs = (length (filter is_logo xs) \<le> 1)"

definition media_model_of :: "pyval list \<Rightarrow> (string \<Rightarrow> file_content option) \<Rightarrow> media_model" where
  "media_model_of xs fl =
     \<lparr>media = xs, media_dir = PStr ''data/media'', media_file = PStr ''data/media/media.json'',
      media_fs = \<lparr>files = fl, read_only = (\<lambda>p. False)\<rparr>\<rparr>"

text \<open>What the loop of \<open>set_logo\<close> makes of a record.\<close>

fun mark_logo :: "string \<Rightarrow> pyval \<Rightarrow> pyval" where
  "mark_logo media_id (PDict d) =
     PDict (dict_set ''is_logo'' (PBool (map_of d ''id'' = Some (PStr media_id))) d)"
| "mark_logo media_id v = v"

text \<open>
  A collection of records that all carry an id, no two the same, at most one of them
  the logo.
\<close>

definition media_invariant :: "pyval list \<Rightarrow> bool" where
  "media_invariant xs =
     (list_all has_id xs \<and> distinct (map media_id_of xs) \<and> at_most_one_logo xs)"

section \<open>Properties\<close>

subsection \<open>Dictionaries and handlers\<close>

lemma strip_Nil [simp]: "strip [] = []"
  by (simp add: strip_def)

lemma map_of_dict_set: "map_of (dict_set k v d) = (map_of d)(k \<mapsto> v)"
  by (simp add: dict_set_def update_conv')


lemma handle_Inl: "handle h (Inl e, s) = (Inl (h e), s)"
  by (simp add: handle_def)

lemma handle_Inr: "handle h (Inr x, s) = (Inr x, s)"
  by (simp add: handle_def)

lemma reraise_Sanctify: "\<exists>s. reraise_or_wrap m c p e = Sanctify s"
  by (cases e) (simp_all add: wrap_exception_def)

subsection \<open>add\_song and field-type validation\<close>





subsection \<open>Looking songs up by title\<close>








lemma find_Some_mem: "find P xs = Some x \<Longrightarrow> x \<in> set xs \<and> P x"
  by (induction xs) (auto split: if_splits)



lemma snd_handle: "snd (handle h r) = snd r"
  by (cases r) (auto simp: handle_def split: sum.splits)

lemma fst_handle_Inr: "fst r = Inr x \<Longrightarrow> fst (handle h r) = Inr x"
  by (cases r) (auto simp: handle_def)

lemma snd_returning: "snd (returning x r) = snd r"
  by (cases r) (auto simp: returning_def split: sum.splits)

lemma fst_returning_Inr: "fst r = Inr u \<Longrightarrow> fst (returning x r) = Inr x"
  by (cases r) (auto simp: returning_def)




lemma save_songs_ok:
  "songs_path m = PStr p \<Longrightarrow> \<not> read_only (song_fs m) p \<Longrightarrow> fst (save_songs m) = Inr ()"
  by (simp add: save_songs_def)






subsection \<open>update\_song\<close>











subsection \<open>Saving and reloading\<close>






subsection \<open>Merging loaded settings into the defaults\<close>

lemma merge_settings_lookup:
  "distinct (map fst loaded) \<Longrightarrow>
   map_of (merge_settings result loaded) k =
     (case map_of loaded k of
        None \<Rightarrow> map_of result k
      | Some v \<Rightarrow> Some (merged_value (map_of result k) v))"
proof (induction loaded arbitrary: result)
  case Nil
  then show ?case by simp
next
  case (Cons kv rest)
  obtain key v where kv: "kv = (key, v)" by (cases kv)
  have dr: "distinct (map fst rest)" and nk: "key \<notin> fst ` set rest"
    using Cons.prems kv by auto
  have none: "map_of rest key = None" using nk by (simp add: map_of_eq_None_iff)
  show ?case
    unfolding kv
    by (cases "map_of result key"; cases v)
       (auto simp: Cons.IH[OF dr] none map_of_dict_set split: option.splits pyval.splits)
qed

text \<open>
  C8: for a loaded dictionary (its keys distinct), a key that \<open>loaded\<close> lacks keeps the
  value of \<open>defaults\<close>; a key of \<open>loaded\<close> gets the loaded value, merged by the same
  rule with the default when both are dictionaries; and the keys of the result are the
  keys of \<open>defaults\<close> together with the keys of \<open>loaded\<close>.
\<close>

theorem merge_settings_correct:
  assumes "distinct (map fst loaded)"
  shows "map_of (merge_settings defaults loaded) k =
           (case map_of loaded k of
              None \<Rightarrow> map_of defaults k
            | Some v \<Rightarrow> Some (merged_value (map_of defaults k) v)) \<and>
         fst ` set (merge_settings defaults loaded) = fst ` set defaults \<union> fst ` set loaded"
proof -
  have l: "\<And>k. map_of (merge_settings defaults loaded) k =
           (case map_of loaded k of
              None \<Rightarrow> map_of defaults k
            | Some v \<Rightarrow> Some (merged_value (map_of defaults k) v))"
    by (rule merge_settings_lookup[OF assms])
  have "dom (map_of (merge_settings defaults loaded)) = dom (map_of defaults) \<union> dom (map_of loaded)"
    by (auto simp: dom_def l split: option.splits)
  then show ?thesis using l by (simp add: dom_map_of_conv_image_fst)
qed

theorem merge_settings_correct_witness:
  "distinct (map fst [(''general'', PDict [(''language'', PStr ''French'')]),
                      (''paths'', PStr ''x''), (''extra'', PInt 1)]) \<and>
   map_of (merge_settings
             [(''general'', PDict [(''language'', PStr ''English''), (''enable_tips'', PBool True)]),
              (''paths'', PDict [(''songs'', PStr ''data/songs/songs.json'')]),
              (''advanced'', PDict [(''log_level'', PStr ''INFO'')])]
             [(''general'', PDict [(''language'', PStr ''French'')]),
              (''paths'', PStr ''x''), (''extra'', PInt 1)]) ''general'' =
     Some (PDict [(''language'', PStr ''French''), (''enable_tips'', PBool True)])"
proof -
  let ?l = "[(''general'', PDict [(''language'', PStr ''French'')]),
             (''paths'', PStr ''x''), (''extra'', PInt 1)]"
  let ?d = "[(''general'', PDict [(''language'', PStr ''English''), (''enable_tips'', PBool True)]),
             (''paths'', PDict [(''songs'', PStr ''data/songs/songs.json'')]),
             (''advanced'', PDict [(''log_level'', PStr ''INFO'')])]"
  have h: "distinct (map fst ?l)"
    by simp
  have m: "merged_value (map_of ?d ''general'') (PDict [(''language'', PStr ''French'')]) =
             PDict [(''language'', PStr ''French''), (''enable_tips'', PBool True)]"
    by (simp add: dict_set_def)
  have l: "map_of ?l ''general'' = Some (PDict [(''language'', PStr ''French'')])"
    by simp
  have "map_of (merge_settings ?d ?l) ''general'' =
          Some (merged_value (map_of ?d ''general'') (PDict [(''language'', PStr ''French'')]))"
    using merge_settings_correct[OF h, of ?d "''general''"] unfolding l by simp
  then show ?thesis
    using h unfolding m by blast
qed

subsection \<open>get\_verses\<close>











subsection \<open>duplicate\_media on a name without a dot\<close>

lemma copy_name_no_dot:
  assumes "subscript item ''name'' = Inr (PStr nm)" and "CHR ''.'' \<notin> set nm"
  shows "copy_name item = Inl IndexError"
  using assms by (simp add: copy_name_def rsplit_dot_def index_list_def)

lemma duplicate_media_body_no_dot:
  assumes f: "find_media media_id (media m) = Inr (Some item)"
    and n: "subscript item ''name'' = Inr (PStr nm)"
    and d: "CHR ''.'' \<notin> set nm"
  shows "\<exists>e. duplicate_media_body new_id created updated media_id m = (Inl e, m)"
  unfolding duplicate_media_body_def get_media_by_id_def f
  by (simp add: copy_name_no_dot[OF n d] split: sum.splits)

text \<open>
  C10: when the record that \<open>duplicate_media\<close> finds for the id has a display name with
  no \<open>'.'\<close> in it, the call raises SanctifyError and the model is left as it was: no
  metadata record is added and no file is copied.
\<close>

theorem duplicate_media_no_dot:
  assumes f: "find_media media_id (media m) = Inr (Some item)"
    and n: "subscript item ''name'' = Inr (PStr nm)"
    and d: "CHR ''.'' \<notin> set nm"
  shows "\<exists>s. duplicate_media new_id created updated media_id m = (Inl (Sanctify s), m)"
proof -
  obtain e where "duplicate_media_body new_id created updated media_id m = (Inl e, m)"
    using duplicate_media_body_no_dot[OF f n d] by blast
  then show ?thesis
    using reraise_Sanctify by (simp add: duplicate_media_def handle_Inl)
qed

theorem duplicate_media_no_dot_witness:
  "find_media ''m1'' (media (media_model_of [PDict [(''id'', PStr ''m1''), (''name'', PStr ''logo''), (''path'', PStr ''Images/m1.png''),
           (''category'', PStr ''Images''), (''tags'', PStr []), (''scaling'', PStr ''fit''),
           (''created_at'', PStr ''2023''), (''updated_at'', PStr ''2023''), (''is_logo'', PBool False)]] (\<lambda>p. None))) = Inr (Some (PDict [(''id'', PStr ''m1''), (''name'', PStr ''logo''), (''path'', PStr ''Images/m1.png''),
           (''category'', PStr ''Images''), (''tags'', PStr []), (''scaling'', PStr ''fit''),
           (''created_at'', PStr ''2023''), (''updated_at'', PStr ''2023''), (''is_logo'', PBool False)])) \<and>
   subscript (PDict [(''id'', PStr ''m1''), (''name'', PStr ''logo''), (''path'', PStr ''Images/m1.png''),
           (''category'', PStr ''Images''), (''tags'', PStr []), (''scaling'', PStr ''fit''),
           (''created_at'', PStr ''2023''), (''updated_at'', PStr ''2023''), (''is_logo'', PBool False)]) ''name'' = Inr (PStr ''logo'') \<and>
   CHR ''.'' \<notin> set ''logo'' \<and>
   (\<exists>s. duplicate_media ''m2'' ''2024'' ''2024'' ''m1'' (media_model_of [PDict [(''id'', PStr ''m1''), (''name'', PStr ''logo''), (''path'', PStr ''Images/m1.png''),
           (''category'', PStr ''Images''), (''tags'', PStr []), (''scaling'', PStr ''fit''),
           (''created_at'', PStr ''2023''), (''updated_at'', PStr ''2023''), (''is_logo'', PBool False)]] (\<lambda>p. None)) =
          (Inl (Sanctify s), media_model_of [PDict [(''id'', PStr ''m1''), (''name'', PStr ''logo''), (''path'', PStr ''Images/m1.png''),
           (''category'', PStr ''Images''), (''tags'', PStr []), (''scaling'', PStr ''fit''),
           (''created_at'', PStr ''2023''), (''updated_at'', PStr ''2023''), (''is_logo'', PBool False)]] (\<lambda>p. None)))"
proof -
  let ?item = "PDict [(''id'', PStr ''m1''), (''name'', PStr ''logo''), (''path'', PStr ''Images/m1.png''),
           (''category'', PStr ''Images''), (''tags'', PStr []), (''scaling'', PStr ''fit''),
           (''created_at'', PStr ''2023''), (''updated_at'', PStr ''2023''), (''is_logo'', PBool False)]"
  let ?m = "media_model_of [?item] (\<lambda>p. None)"
  have h1: "find_media ''m1'' (media ?m) = Inr (Some ?item)"
    by (simp add: media_model_of_def)
  have h2: "subscript ?item ''name'' = Inr (PStr ''logo'')"
    by simp
  have h3: "CHR ''.'' \<notin> set ''logo''"
    by simp
  show ?thesis
    using h1 h2 h3 duplicate_media_no_dot[OF h1 h2 h3, of "''m2''" "''2024''" "''2024''"] by blast
qed

subsection \<open>The logo flag of stored media\<close>

lemma has_id_subscript: "has_id x \<Longrightarrow> \<exists>d i. x = PDict d \<and> map_of d ''id'' = Some i \<and> subscript x ''id'' = Inr i"
  by (cases x) (auto simp: has_id_def)

lemma find_media_has_id:
  "list_all has_id xs \<Longrightarrow>
   find_media media_id xs = Inr (find (\<lambda>x. media_id_of x = Some (PStr media_id)) xs)"
proof (induction xs)
  case (Cons x xs)
  then show ?case using has_id_subscript[of x] by auto
qed simp

lemma set_logo_loop_has_id:
  "list_all has_id xs \<Longrightarrow> set_logo_loop media_id xs = (Inr (), map (mark_logo media_id) xs)"
proof (induction xs)
  case (Cons x xs)
  then show ?case using has_id_subscript[of x] by auto
qed simp

lemma is_logo_mark_logo:
  "has_id x \<Longrightarrow> is_logo (mark_logo media_id x) = (media_id_of x = Some (PStr media_id))"
  using has_id_subscript[of x] by (auto simp: map_of_dict_set)

lemma media_id_of_mark_logo: "media_id_of (mark_logo media_id x) = media_id_of x"
  by (cases x) (auto simp: map_of_dict_set)

lemma has_id_mark_logo: "has_id (mark_logo media_id x) = has_id x"
  by (simp add: has_id_def media_id_of_mark_logo)

lemma filter_distinct_key:
  "distinct (map f xs) \<Longrightarrow> length (filter (\<lambda>x. f x = v) xs) \<le> 1"
proof (induction xs)
  case (Cons x xs)
  show ?case
  proof (cases "f x = v")
    case True
    have "f x \<notin> f ` set xs" using Cons.prems by simp
    then have "\<forall>y\<in>set xs. f y \<noteq> v" using True by blast
    then have "filter (\<lambda>x. f x = v) xs = []"
      by (simp add: filter_empty_conv)
    then show ?thesis using True by simp
  next
    case False
    then show ?thesis using Cons by simp
  qed
qed simp

lemma filter_is_logo_marked:
  "list_all has_id xs \<Longrightarrow>
   filter is_logo (map (mark_logo media_id) xs) =
     map (mark_logo media_id) (filter (\<lambda>x. media_id_of x = Some (PStr media_id)) xs)"
  by (induction xs) (auto simp: is_logo_mark_logo)

lemma media_invariant_marked:
  assumes "list_all has_id xs" and "distinct (map media_id_of xs)"
  shows "media_invariant (map (mark_logo media_id) xs)"
proof -
  have "length (filter is_logo (map (mark_logo media_id) xs)) \<le> 1"
    using filter_distinct_key[OF assms(2), of "Some (PStr media_id)"]
    by (simp add: filter_is_logo_marked[OF assms(1)])
  moreover have "map media_id_of (map (mark_logo media_id) xs) = map media_id_of xs"
    by (simp add: media_id_of_mark_logo comp_def)
  moreover have "list_all has_id (map (mark_logo media_id) xs)"
    using assms(1) by (simp add: list_all_iff has_id_mark_logo)
  ultimately show ?thesis
    using assms(2) unfolding media_invariant_def at_most_one_logo_def by metis
qed

lemma save_media_media: "media (snd (save_media m)) = media m"
  by (cases "media_file m") (auto simp: save_media_def split: prod.splits sum.splits)

lemma media_saved: "media (snd (handle h (returning x (save_media m)))) = media m"
  by (simp add: snd_handle snd_returning save_media_media)

text \<open>set\_logo: the outcome on a collection whose records carry ids\<close>

lemma set_logo_cases:
  assumes "list_all has_id (media m)"
  shows "(case find (\<lambda>x. media_id_of x = Some (PStr media_id)) (media m) of
            None \<Rightarrow> \<exists>s. set_logo media_id m = (Inl (Sanctify s), m)
          | Some item \<Rightarrow>
              if subscript item ''category'' = Inr (PStr ''Images'')
              then set_logo media_id m =
                     handle (reraise_or_wrap ''MediaModel'' ''SET_LOGO_002'' ''Error setting logo: '')
                       (returning True (save_media (m\<lparr>media := map (mark_logo media_id) (media m)\<rparr>)))
              else \<exists>s. set_logo media_id m = (Inl (Sanctify s), m))"
proof (cases "find (\<lambda>x. media_id_of x = Some (PStr media_id)) (media m)")
  case None
  then show ?thesis
    by (simp add: set_logo_def set_logo_body_def get_media_by_id_def find_media_has_id[OF assms] handle_Inl)
next
  case (Some item)
  have "item \<in> set (media m)" using find_Some_mem[OF Some] by simp
  then have "has_id item" using assms by (auto simp: list_all_iff)
  then obtain d i where d: "item = PDict d" "map_of d ''id'' = Some i"
    using has_id_subscript by blast
  then have t: "truthy item" by auto
  show ?thesis
  proof (cases "subscript item ''category'' = Inr (PStr ''Images'')")
    case True
    then show ?thesis using Some t
      by (simp add: set_logo_def set_logo_body_def get_media_by_id_def find_media_has_id[OF assms]
            set_logo_loop_has_id[OF assms] del: subscript.simps truthy.simps)
  next
    case False
    have "\<exists>e. set_logo_body media_id m = (Inl e, m)"
      using Some t False
      by (auto simp: set_logo_body_def get_media_by_id_def find_media_has_id[OF assms]
               split: sum.splits bool.splits simp del: subscript.simps truthy.simps)
    then show ?thesis using Some False reraise_Sanctify
      by (auto simp: set_logo_def handle_Inl)
  qed
qed

lemma fst_handle_Inr_iff: "(fst (handle h r) = Inr x) = (fst r = Inr x)"
  by (cases r) (auto simp: handle_def split: sum.splits)

lemma fst_returning_Inr_iff: "(fst (returning x r) = Inr y) = (y = x \<and> (\<exists>u. fst r = Inr u))"
  by (cases r) (auto simp: returning_def split: sum.splits)

lemma media_try_remove: "media (try_remove m p) = media m"
  by (simp add: try_remove_def)

lemma add_media_body_media:
  "media (snd (add_media_body new_id created updated src cat dn tags sc m)) = media m \<or>
   (\<exists>item. media (snd (add_media_body new_id created updated src cat dn tags sc m)) = media m @ [item] \<and>
           \<not> is_logo item \<and> media_id_of item = Some (PStr new_id) \<and>
           (\<forall>v. fst (add_media_body new_id created updated src cat dn tags sc m) = Inr v \<longrightarrow> v = item))"
  unfolding add_media_body_def Let_def
  by (auto simp: snd_returning save_media_media media_try_remove fst_returning_Inr_iff
           split: sum.splits prod.splits bool.splits)

lemma add_media_body_Inr:
  "fst (add_media_body new_id created updated src cat dn tags sc m) = Inr v \<Longrightarrow>
   media (snd (add_media_body new_id created updated src cat dn tags sc m)) = media m @ [v]"
  unfolding add_media_body_def Let_def
  by (auto simp: snd_returning save_media_media media_try_remove fst_returning_Inr_iff
           split: sum.splits prod.splits bool.splits if_splits)


lemma duplicate_media_body_media:
  "media (snd (duplicate_media_body new_id created updated media_id m)) = media m \<or>
   (\<exists>item. media (snd (duplicate_media_body new_id created updated media_id m)) = media m @ [item] \<and>
           \<not> is_logo item \<and> media_id_of item = Some (PStr new_id) \<and>
           (\<forall>v. fst (duplicate_media_body new_id created updated media_id m) = Inr v \<longrightarrow> v = item))"
  unfolding duplicate_media_body_def Let_def
  by (auto simp: snd_returning save_media_media media_try_remove fst_returning_Inr_iff
           split: sum.splits prod.splits bool.splits option.splits)

lemma duplicate_media_body_Inr:
  "fst (duplicate_media_body new_id created updated media_id m) = Inr v \<Longrightarrow>
   media (snd (duplicate_media_body new_id created updated media_id m)) = media m @ [v]"
  unfolding duplicate_media_body_def Let_def
  by (auto simp: snd_returning save_media_media media_try_remove fst_returning_Inr_iff
           split: sum.splits prod.splits bool.splits option.splits if_splits)

lemma dict_default_from_other:
  "dict_default_from k src d = Inr d' \<Longrightarrow> k' \<noteq> k \<Longrightarrow> map_of d' k' = map_of d k'"
  by (auto simp: dict_default_from_def map_of_dict_set split: option.splits sum.splits)

lemma update_media_fill_keeps:
  assumes "update_media_fill now item d = Inr d'"
  shows "subscript (PDict d') ''id'' = subscript item ''id'' \<and>
         subscript (PDict d') ''is_logo'' = subscript item ''is_logo''"
  using assms unfolding update_media_fill_def
  by (auto simp: map_of_dict_set dict_default_from_other split: sum.splits)

lemma update_media_rename_keeps:
  assumes "update_media_rename media_id item d m = (r, m1)"
  shows "media m1 = media m \<and>
         (\<forall>d2. r = Inr d2 \<longrightarrow> map_of d2 ''id'' = map_of d ''id'' \<and> map_of d2 ''is_logo'' = map_of d ''is_logo'')"
  using assms unfolding update_media_rename_def Let_def
  by (auto simp: map_of_dict_set split: sum.splits prod.splits bool.splits if_splits)


lemma delete_media_body_media:
  "media (snd (delete_media_body media_id m)) = media m \<or>
   (\<exists>item. find_media media_id (media m) = Inr (Some item) \<and>
           media (snd (delete_media_body media_id m)) = remove1 item (media m))"
  unfolding delete_media_body_def get_media_by_id_def
  by (auto simp: snd_returning save_media_media
           split: sum.splits prod.splits bool.splits option.splits)

lemma update_media_body_media:
  "((\<exists>e. fst (update_media_body now media_id media_data m) = Inl e) \<and>
    media (snd (update_media_body now media_id media_data m)) = media m) \<or>
   (\<exists>item d2. find_media media_id (media m) = Inr (Some item) \<and>
           media (snd (update_media_body now media_id media_data m)) =
             remove1 item (media m) @ [PDict d2] \<and>
           subscript (PDict d2) ''id'' = subscript item ''id'' \<and>
           subscript (PDict d2) ''is_logo'' = subscript item ''is_logo'' \<and>
           (\<exists>i. subscript item ''id'' = Inr i) \<and> (\<exists>l. subscript item ''is_logo'' = Inr l))"
proof (cases "find_media media_id (media m)")
  case (Inl e)
  then show ?thesis by (simp add: update_media_body_def get_media_by_id_def)
next
  case (Inr found)
  show ?thesis
  proof (cases found)
    case None
    then show ?thesis using Inr by (simp add: update_media_body_def get_media_by_id_def)
  next
    case (Some item)
    note f = Inr[unfolded Some]
    show ?thesis
    proof (cases "truthy item")
      case False
      then show ?thesis using f by (simp add: update_media_body_def get_media_by_id_def)
    next
      case True
      show ?thesis
      proof (cases "dict_copy media_data")
        case (Inl e)
        then show ?thesis using f True by (simp add: update_media_body_def get_media_by_id_def)
      next
        case (Inr d)
        note dc = this
        show ?thesis
        proof (cases "update_media_fill now item d")
          case (Inl e)
          then show ?thesis using f True dc by (simp add: update_media_body_def get_media_by_id_def)
        next
          case (Inr d1)
          note fill = this
          note k1 = update_media_fill_keeps[OF fill]
          have ex: "(\<exists>i. subscript item ''id'' = Inr i) \<and> (\<exists>l. subscript item ''is_logo'' = Inr l)"
            using fill unfolding update_media_fill_def by (auto split: sum.splits)
          obtain r m1 where rn: "update_media_rename media_id item d1 m = (r, m1)"
            by (cases "update_media_rename media_id item d1 m")
          note k2 = update_media_rename_keeps[OF rn]
          show ?thesis
          proof (cases r)
            case (Inl e)
            then show ?thesis using f True dc fill rn k2
              by (simp add: update_media_body_def get_media_by_id_def)
          next
            case (Inr d2)
            have keep: "subscript (PDict d2) ''id'' = subscript item ''id'' \<and>
                        subscript (PDict d2) ''is_logo'' = subscript item ''is_logo''"
              using k1 k2 Inr by simp
            show ?thesis
            proof (cases "validate_media m1 (PDict d2)")
              case (Inl e)
              then show ?thesis using f True dc fill rn k2 Inr
                by (simp add: update_media_body_def get_media_by_id_def)
            next
              case (Inr ok)
              show ?thesis
              proof (cases ok)
                case False
                then show ?thesis using f True dc fill rn k2 \<open>r = Inr d2\<close> Inr
                  by (auto simp: update_media_body_def get_media_by_id_def split: sum.splits)
              next
                case True
                have "media (snd (update_media_body now media_id media_data m)) =
                        remove1 item (media m) @ [PDict d2]"
                  using f \<open>truthy item\<close> dc fill rn k2 \<open>r = Inr d2\<close> Inr True
                  by (simp add: update_media_body_def get_media_by_id_def snd_returning save_media_media)
                then show ?thesis using f keep ex by blast
              qed
            qed
          qed
        qed
      qed
    qed
  qed
qed

lemma find_media_mem: "find_media media_id xs = Inr (Some item) \<Longrightarrow> item \<in> set xs"
  by (induction xs) (auto split: sum.splits if_splits)

lemma media_invariant_append:
  assumes "media_invariant xs" and "\<not> is_logo item" and "media_id_of item = Some v"
    and "Some v \<notin> media_id_of ` set xs"
  shows "media_invariant (xs @ [item])"
  using assms by (auto simp: media_invariant_def at_most_one_logo_def has_id_def)

lemma distinct_map_remove1: "distinct (map f xs) \<Longrightarrow> distinct (map f (remove1 x xs))"
  by (auto simp: distinct_map intro: inj_on_subset dest: notin_set_remove1)

lemma media_invariant_remove1:
  assumes "media_invariant xs"
  shows "media_invariant (remove1 item xs)"
proof -
  have "length (filter is_logo (remove1 item xs)) \<le> length (filter is_logo xs)"
    by (simp add: filter_remove1 length_remove1)
  moreover have "list_all has_id (remove1 item xs)"
    using assms by (auto simp: media_invariant_def list_all_iff dest: notin_set_remove1)
  ultimately show ?thesis
    using assms by (auto simp: media_invariant_def at_most_one_logo_def distinct_map_remove1)
qed

lemma media_invariant_replace:
  assumes inv: "media_invariant xs" and mem: "item \<in> set xs"
    and id: "media_id_of new = media_id_of item" and lg: "is_logo new = is_logo item"
  shows "media_invariant (remove1 item xs @ [new])"
proof -
  have dm: "distinct (map media_id_of xs)" and dx: "distinct xs" and inj: "inj_on media_id_of (set xs)"
    using inv by (auto simp: media_invariant_def distinct_map)
  have hi: "has_id item" using inv mem by (auto simp: media_invariant_def list_all_iff)
  then have hn: "has_id new" using id by (simp add: has_id_def)
  have "media_id_of item \<notin> media_id_of ` set (remove1 item xs)"
  proof
    assume "media_id_of item \<in> media_id_of ` set (remove1 item xs)"
    then obtain y where y: "y \<in> set (remove1 item xs)" "media_id_of y = media_id_of item" by auto
    then have "y \<in> set xs" "y \<noteq> item" using dx by auto
    then show False using inj mem y(2) by (auto dest: inj_onD)
  qed
  then have d: "distinct (map media_id_of (remove1 item xs @ [new]))"
    using dm id by (simp add: distinct_map_remove1)
  have h: "list_all has_id (remove1 item xs @ [new])"
    using inv hn by (auto simp: media_invariant_def list_all_iff dest: notin_set_remove1)
  have "length (filter is_logo (remove1 item xs @ [new])) = length (filter is_logo xs)"
  proof (cases "is_logo item")
    case True
    then have "item \<in> set (filter is_logo xs)" using mem by simp
    then have "0 < length (filter is_logo xs)" by (rule length_pos_if_in_set)
    then show ?thesis using True lg mem by (simp add: filter_remove1 length_remove1)
  next
    case False
    then have "filter is_logo (remove1 item xs) = filter is_logo xs"
      by (simp add: filter_remove1 remove1_idem)
    then show ?thesis using False lg by simp
  qed
  then show ?thesis
    using inv d h by (simp add: media_invariant_def at_most_one_logo_def)
qed

lemma add_media_invariant:
  assumes "media_invariant (media m)" and "Some (PStr new_id) \<notin> set (map media_id_of (media m))"
  shows "media_invariant (media (snd (add_media new_id created updated src cat dn tags sc m)))"
  using add_media_body_media[of new_id created updated src cat dn tags sc m] assms
  by (auto simp: add_media_def snd_handle intro: media_invariant_append)

lemma duplicate_media_invariant:
  assumes "media_invariant (media m)" and "Some (PStr new_id) \<notin> set (map media_id_of (media m))"
  shows "media_invariant (media (snd (duplicate_media new_id created updated media_id m)))"
  using duplicate_media_body_media[of new_id created updated media_id m] assms
  by (auto simp: duplicate_media_def snd_handle intro: media_invariant_append)

lemma delete_media_invariant:
  assumes "media_invariant (media m)"
  shows "media_invariant (media (snd (delete_media media_id m)))"
  using delete_media_body_media[of media_id m] assms
  by (auto simp: delete_media_def snd_handle intro: media_invariant_remove1)

lemma subscript_eq_keys:
  assumes "subscript (PDict d2) k = subscript item k" and "subscript item k = Inr v"
  shows "\<exists>d. item = PDict d \<and> map_of d2 k = map_of d k"
  using assms by (cases item) (auto split: option.splits)

lemma update_media_invariant:
  assumes inv: "media_invariant (media m)"
  shows "media_invariant (media (snd (update_media now media_id media_data m)))"
proof -
  from update_media_body_media[of now media_id media_data m]
  show ?thesis
  proof
    assume "(\<exists>e. fst (update_media_body now media_id media_data m) = Inl e) \<and>
            media (snd (update_media_body now media_id media_data m)) = media m"
    then show ?thesis using inv by (simp add: update_media_def snd_handle)
  next
    assume "\<exists>item d2. find_media media_id (media m) = Inr (Some item) \<and>
           media (snd (update_media_body now media_id media_data m)) =
             remove1 item (media m) @ [PDict d2] \<and>
           subscript (PDict d2) ''id'' = subscript item ''id'' \<and>
           subscript (PDict d2) ''is_logo'' = subscript item ''is_logo'' \<and>
           (\<exists>i. subscript item ''id'' = Inr i) \<and> (\<exists>l. subscript item ''is_logo'' = Inr l)"
    then obtain item d2 i l where f: "find_media media_id (media m) = Inr (Some item)"
      and md: "media (snd (update_media_body now media_id media_data m)) = remove1 item (media m) @ [PDict d2]"
      and k1: "subscript (PDict d2) ''id'' = subscript item ''id''"
      and k2: "subscript (PDict d2) ''is_logo'' = subscript item ''is_logo''"
      and i: "subscript item ''id'' = Inr i" and l: "subscript item ''is_logo'' = Inr l"
      by blast
    obtain d where d: "item = PDict d" "map_of d2 ''id'' = map_of d ''id''"
      using subscript_eq_keys[OF k1 i] by blast
    have d': "map_of d2 ''is_logo'' = map_of d ''is_logo''"
      using subscript_eq_keys[OF k2 l] d(1) by auto
    have "media_invariant (remove1 item (media m) @ [PDict d2])"
      using inv find_media_mem[OF f] d d' by (intro media_invariant_replace) auto
    then show ?thesis by (simp add: update_media_def snd_handle md)
  qed
qed

lemma set_logo_invariant:
  assumes inv: "media_invariant (media m)"
  shows "media_invariant (media (snd (set_logo media_id m)))"
proof -
  have h: "list_all has_id (media m)" and d: "distinct (map media_id_of (media m))"
    using inv by (auto simp: media_invariant_def)
  show ?thesis
    using set_logo_cases[OF h, of media_id] inv media_invariant_marked[OF h d, of media_id]
    by (auto simp: media_saved split: option.splits if_splits)
qed

lemma set_logo_success:
  assumes inv: "media_invariant (media m)" and ok: "fst (set_logo media_id m) = Inr True"
  shows "list_all (\<lambda>x. is_logo x = (media_id_of x = Some (PStr media_id))) (media (snd (set_logo media_id m))) \<and>
         length (filter is_logo (media (snd (set_logo media_id m)))) = 1"
proof -
  have h: "list_all has_id (media m)" and d: "distinct (map media_id_of (media m))"
    using inv by (auto simp: media_invariant_def)
  obtain item where f: "find (\<lambda>x. media_id_of x = Some (PStr media_id)) (media m) = Some item"
    and md: "media (snd (set_logo media_id m)) = map (mark_logo media_id) (media m)"
    using set_logo_cases[OF h, of media_id] ok
    by (auto simp: media_saved split: option.splits if_splits)
  have a: "list_all (\<lambda>x. is_logo x = (media_id_of x = Some (PStr media_id)))
             (map (mark_logo media_id) (media m))"
    using h by (auto simp: list_all_iff is_logo_mark_logo media_id_of_mark_logo)
  have mem: "item \<in> set (media m)" "media_id_of item = Some (PStr media_id)"
    using find_Some_mem[OF f] by auto
  then have "has_id item" using h by (auto simp: list_all_iff)
  then have "is_logo (mark_logo media_id item)" using mem by (simp add: is_logo_mark_logo)
  then have "mark_logo media_id item \<in> set (filter is_logo (map (mark_logo media_id) (media m)))"
    using mem by auto
  then have "0 < length (filter is_logo (map (mark_logo media_id) (media m)))"
    by (rule length_pos_if_in_set)
  moreover have "length (filter is_logo (map (mark_logo media_id) (media m))) \<le> 1"
    using media_invariant_marked[OF h d, of media_id]
    by (simp add: media_invariant_def at_most_one_logo_def)
  ultimately have "length (filter is_logo (map (mark_logo media_id) (media m))) = 1"
    by linarith
  then show ?thesis using a unfolding md by blast
qed

lemma set_logo_refuses:
  assumes inv: "media_invariant (media m)"
    and no: "find (\<lambda>x. media_id_of x = Some (PStr media_id)) (media m) = None \<or>
             (\<exists>item. find (\<lambda>x. media_id_of x = Some (PStr media_id)) (media m) = Some item \<and>
                     subscript item ''category'' \<noteq> Inr (PStr ''Images''))"
  shows "\<exists>s. set_logo media_id m = (Inl (Sanctify s), m)"
proof -
  have h: "list_all has_id (media m)" using inv by (auto simp: media_invariant_def)
  show ?thesis
    using set_logo_cases[OF h, of media_id] no by (auto split: option.splits if_splits)
qed

lemma add_media_success:
  assumes "fst (add_media new_id created updated src cat dn tags sc m) = Inr v"
  shows "\<not> is_logo v \<and> media (snd (add_media new_id created updated src cat dn tags sc m)) = media m @ [v]"
proof -
  have b: "fst (add_media_body new_id created updated src cat dn tags sc m) = Inr v"
    using assms by (simp add: add_media_def fst_handle_Inr_iff)
  have md: "media (snd (add_media_body new_id created updated src cat dn tags sc m)) = media m @ [v]"
    by (rule add_media_body_Inr[OF b])
  have "\<not> is_logo v"
    using add_media_body_media[of new_id created updated src cat dn tags sc m] b md by auto
  then show ?thesis using md by (simp add: add_media_def snd_handle)
qed

lemma duplicate_media_success:
  assumes "fst (duplicate_media new_id created updated media_id m) = Inr v"
  shows "\<not> is_logo v \<and> media (snd (duplicate_media new_id created updated media_id m)) = media m @ [v]"
proof -
  have b: "fst (duplicate_media_body new_id created updated media_id m) = Inr v"
    using assms by (simp add: duplicate_media_def fst_handle_Inr_iff)
  have md: "media (snd (duplicate_media_body new_id created updated media_id m)) = media m @ [v]"
    by (rule duplicate_media_body_Inr[OF b])
  have "\<not> is_logo v"
    using duplicate_media_body_media[of new_id created updated media_id m] b md by auto
  then show ?thesis using md by (simp add: duplicate_media_def snd_handle)
qed

lemma update_media_success:
  assumes inv: "media_invariant (media m)"
    and ok: "fst (update_media now media_id media_data m) = Inr True"
  shows "\<exists>item new. find (\<lambda>x. media_id_of x = Some (PStr media_id)) (media m) = Some item \<and>
           media (snd (update_media now media_id media_data m)) = remove1 item (media m) @ [new] \<and>
           subscript new ''is_logo'' = subscript item ''is_logo'' \<and>
           is_logo new = is_logo item"
proof -
  have h: "list_all has_id (media m)" using inv by (auto simp: media_invariant_def)
  have b: "fst (update_media_body now media_id media_data m) = Inr True"
    using ok by (simp add: update_media_def fst_handle_Inr_iff)
  then obtain item d2 l where f: "find_media media_id (media m) = Inr (Some item)"
      and md: "media (snd (update_media_body now media_id media_data m)) = remove1 item (media m) @ [PDict d2]"
      and k2: "subscript (PDict d2) ''is_logo'' = subscript item ''is_logo''"
      and l: "subscript item ''is_logo'' = Inr l"
    using update_media_body_media[of now media_id media_data m] by auto
  obtain d where d: "item = PDict d" "map_of d2 ''is_logo'' = map_of d ''is_logo''"
    using subscript_eq_keys[OF k2 l] by blast
  have "is_logo (PDict d2) = is_logo item" using d by simp
  moreover have "find (\<lambda>x. media_id_of x = Some (PStr media_id)) (media m) = Some item"
    using f by (simp add: find_media_has_id[OF h])
  ultimately show ?thesis
    using md k2 by (auto simp: update_media_def snd_handle)
qed

text \<open>
  C5, as the code has it: in a collection whose records all carry an id, no two records
  the same id, with at most one logo, and for a new id that no record has, every media
  operation leaves a collection of that kind, whether it returns or raises. Where
  \<open>set_logo\<close> returns True, a record is the logo exactly when its id is \<open>media_id\<close>,
  and there is exactly one logo; it raises SanctifyError, changing nothing, when no record
  has the id or the record found is not in category \<open>Images\<close>. The record that
  \<open>add_media\<close> or \<open>duplicate_media\<close> returns is appended and is not the logo. Where
  \<open>update_media\<close> returns True, the record found is replaced by one with the same
  \<open>is_logo\<close> value.
\<close>

theorem media_operations_keep_one_logo:
  assumes inv: "media_invariant (media m)"
    and fresh: "Some (PStr new_id) \<notin> set (map media_id_of (media m))"
  shows "media_invariant (media (snd (set_logo media_id m))) \<and>
         media_invariant (media (snd (add_media new_id created updated src cat dn tags sc m))) \<and>
         media_invariant (media (snd (duplicate_media new_id created updated media_id m))) \<and>
         media_invariant (media (snd (update_media now media_id media_data m))) \<and>
         media_invariant (media (snd (delete_media media_id m))) \<and>
         (fst (set_logo media_id m) = Inr True \<longrightarrow>
            list_all (\<lambda>x. is_logo x = (media_id_of x = Some (PStr media_id)))
              (media (snd (set_logo media_id m))) \<and>
            length (filter is_logo (media (snd (set_logo media_id m)))) = 1) \<and>
         (find (\<lambda>x. media_id_of x = Some (PStr media_id)) (media m) = None \<or>
          (\<exists>item. find (\<lambda>x. media_id_of x = Some (PStr media_id)) (media m) = Some item \<and>
                  subscript item ''category'' \<noteq> Inr (PStr ''Images'')) \<longrightarrow>
            (\<exists>s. set_logo media_id m = (Inl (Sanctify s), m))) \<and>
         (\<forall>v. fst (add_media new_id created updated src cat dn tags sc m) = Inr v \<longrightarrow>
            \<not> is_logo v \<and>
            media (snd (add_media new_id created updated src cat dn tags sc m)) = media m @ [v]) \<and>
         (\<forall>v. fst (duplicate_media new_id created updated media_id m) = Inr v \<longrightarrow>
            \<not> is_logo v \<and>
            media (snd (duplicate_media new_id created updated media_id m)) = media m @ [v]) \<and>
         (fst (update_media now media_id media_data m) = Inr True \<longrightarrow>
            (\<exists>item new. find (\<lambda>x. media_id_of x = Some (PStr media_id)) (media m) = Some item \<and>
               media (snd (update_media now media_id media_data m)) = remove1 item (media m) @ [new] \<and>
               subscript new ''is_logo'' = subscript item ''is_logo'' \<and>
               is_logo new = is_logo item))"
proof -
  have fresh': "Some (PStr new_id) \<notin> media_id_of ` set (media m)" using fresh by simp
  note a = set_logo_invariant[OF inv, of media_id]
  note b = add_media_invariant[OF inv fresh, of created updated src cat dn tags sc]
  note c = duplicate_media_invariant[OF inv fresh, of created updated media_id]
  note d = update_media_invariant[OF inv, of now media_id media_data]
  note e = delete_media_invariant[OF inv, of media_id]
  have f: "fst (set_logo media_id m) = Inr True \<longrightarrow>
            list_all (\<lambda>x. is_logo x = (media_id_of x = Some (PStr media_id)))
              (media (snd (set_logo media_id m))) \<and>
            length (filter is_logo (media (snd (set_logo media_id m)))) = 1"
    using set_logo_success[OF inv] by blast
  have g: "find (\<lambda>x. media_id_of x = Some (PStr media_id)) (media m) = None \<or>
          (\<exists>item. find (\<lambda>x. media_id_of x = Some (PStr media_id)) (media m) = Some item \<and>
                  subscript item ''category'' \<noteq> Inr (PStr ''Images'')) \<longrightarrow>
            (\<exists>s. set_logo media_id m = (Inl (Sanctify s), m))"
    using set_logo_refuses[OF inv] by blast
  have h: "\<forall>v. fst (add_media new_id created updated src cat dn tags sc m) = Inr v \<longrightarrow>
            \<not> is_logo v \<and>
            media (snd (add_media new_id created updated src cat dn tags sc m)) = media m @ [v]"
    using add_media_success by blast
  have i: "\<forall>v. fst (duplicate_media new_id created updated media_id m) = Inr v \<longrightarrow>
            \<not> is_logo v \<and>
            media (snd (duplicate_media new_id created updated media_id m)) = media m @ [v]"
    using duplicate_media_success by blast
  have j: "fst (update_media now media_id media_data m) = Inr True \<longrightarrow>
            (\<exists>item new. find (\<lambda>x. media_id_of x = Some (PStr media_id)) (media m) = Some item \<and>
               media (snd (update_media now media_id media_data m)) = remove1 item (media m) @ [new] \<and>
               subscript new ''is_logo'' = subscript item ''is_logo'' \<and>
               is_logo new = is_logo item)"
    using update_media_success[OF inv] by blast
  show ?thesis
    using a b c d e f g h i j by (intro conjI)
qed

theorem media_operations_keep_one_logo_witness:
  "media_invariant (media (media_model_of [PDict [(''id'', PStr ''m1''), (''name'', PStr ''cross.png''), (''path'', PStr ''Images/m1.png''),
           (''category'', PStr ''Images''), (''tags'', PStr []), (''scaling'', PStr ''fit''),
           (''created_at'', PStr ''2023''), (''updated_at'', PStr ''2023''), (''is_logo'', PBool False)], PDict [(''id'', PStr ''m2''), (''name'', PStr ''dove.png''), (''path'', PStr ''Images/m2.png''),
           (''category'', PStr ''Images''), (''tags'', PStr []), (''scaling'', PStr ''fit''),
           (''created_at'', PStr ''2023''), (''updated_at'', PStr ''2023''), (''is_logo'', PBool True)]] (\<lambda>p. None))) \<and>
   Some (PStr ''m3'') \<notin> set (map media_id_of (media (media_model_of [PDict [(''id'', PStr ''m1''), (''name'', PStr ''cross.png''), (''path'', PStr ''Images/m1.png''),
           (''category'', PStr ''Images''), (''tags'', PStr []), (''scaling'', PStr ''fit''),
           (''created_at'', PStr ''2023''), (''updated_at'', PStr ''2023''), (''is_logo'', PBool False)], PDict [(''id'', PStr ''m2''), (''name'', PStr ''dove.png''), (''path'', PStr ''Images/m2.png''),
           (''category'', PStr ''Images''), (''tags'', PStr []), (''scaling'', PStr ''fit''),
           (''created_at'', PStr ''2023''), (''updated_at'', PStr ''2023''), (''is_logo'', PBool True)]] (\<lambda>p. None)))) \<and>
   fst (set_logo ''m1'' (media_model_of [PDict [(''id'', PStr ''m1''), (''name'', PStr ''cross.png''), (''path'', PStr ''Images/m1.png''),
           (''category'', PStr ''Images''), (''tags'', PStr []), (''scaling'', PStr ''fit''),
           (''created_at'', PStr ''2023''), (''updated_at'', PStr ''2023''), (''is_logo'', PBool False)], PDict [(''id'', PStr ''m2''), (''name'', PStr ''dove.png''), (''path'', PStr ''Images/m2.png''),
           (''category'', PStr ''Images''), (''tags'', PStr []), (''scaling'', PStr ''fit''),
           (''created_at'', PStr ''2023''), (''updated_at'', PStr ''2023''), (''is_logo'', PBool True)]] (\<lambda>p. None))) = Inr True \<and>
   media_invariant (media (snd (set_logo ''m1'' (media_model_of [PDict [(''id'', PStr ''m1''), (''name'', PStr ''cross.png''), (''path'', PStr ''Images/m1.png''),
           (''category'', PStr ''Images''), (''tags'', PStr []), (''scaling'', PStr ''fit''),
           (''created_at'', PStr ''2023''), (''updated_at'', PStr ''2023''), (''is_logo'', PBool False)], PDict [(''id'', PStr ''m2''), (''name'', PStr ''dove.png''), (''path'', PStr ''Images/m2.png''),
           (''category'', PStr ''Images''), (''tags'', PStr []), (''scaling'', PStr ''fit''),
           (''created_at'', PStr ''2023''), (''updated_at'', PStr ''2023''), (''is_logo'', PBool True)]] (\<lambda>p. None))))) \<and>
   length (filter is_logo (media (snd (set_logo ''m1'' (media_model_of [PDict [(''id'', PStr ''m1''), (''name'', PStr ''cross.png''), (''path'', PStr ''Images/m1.png''),
           (''category'', PStr ''Images''), (''tags'', PStr []), (''scaling'', PStr ''fit''),
           (''created_at'', PStr ''2023''), (''updated_at'', PStr ''2023''), (''is_logo'', PBool False)], PDict [(''id'', PStr ''m2''), (''name'', PStr ''dove.png''), (''path'', PStr ''Images/m2.png''),
           (''category'', PStr ''Images''), (''tags'', PStr []), (''scaling'', PStr ''fit''),
           (''created_at'', PStr ''2023''), (''updated_at'', PStr ''2023''), (''is_logo'', PBool True)]] (\<lambda>p. None)))))) = 1"
proof -
  let ?m = "media_model_of [PDict [(''id'', PStr ''m1''), (''name'', PStr ''cross.png''), (''path'', PStr ''Images/m1.png''),
           (''category'', PStr ''Images''), (''tags'', PStr []), (''scaling'', PStr ''fit''),
           (''created_at'', PStr ''2023''), (''updated_at'', PStr ''2023''), (''is_logo'', PBool False)], PDict [(''id'', PStr ''m2''), (''name'', PStr ''dove.png''), (''path'', PStr ''Images/m2.png''),
           (''category'', PStr ''Images''), (''tags'', PStr []), (''scaling'', PStr ''fit''),
           (''created_at'', PStr ''2023''), (''updated_at'', PStr ''2023''), (''is_logo'', PBool True)]] (\<lambda>p. None)"
  have h1: "media_invariant (media ?m)"
    by code_simp
  have h2: "Some (PStr ''m3'') \<notin> set (map media_id_of (media ?m))"
    by code_simp
  have h3: "fst (set_logo ''m1'' ?m) = Inr True"
    by code_simp
  show ?thesis
    using h1 h2 h3 media_operations_keep_one_logo[OF h1 h2, of "''m1''"] by blast
qed

text \<open>
  C5 as stated fails: \<open>_load_media\<close> accepts records that share an id, and \<open>set_logo\<close>
  marks every record with the id given. With two image records of id \<open>m1\<close> and no logo,
  \<open>set_logo('m1')\<close> returns True and leaves two logos.
\<close>

theorem set_logo_shared_id_counterexample:
  "at_most_one_logo (media (media_model_of [PDict [(''id'', PStr ''m1''), (''name'', PStr ''cross.png''), (''path'', PStr ''Images/m1.png''),
           (''category'', PStr ''Images''), (''tags'', PStr []), (''scaling'', PStr ''fit''),
           (''created_at'', PStr ''2023''), (''updated_at'', PStr ''2023''), (''is_logo'', PBool False)], PDict [(''id'', PStr ''m1''), (''name'', PStr ''dove.png''), (''path'', PStr ''Images/m2.png''),
           (''category'', PStr ''Images''), (''tags'', PStr []), (''scaling'', PStr ''fit''),
           (''created_at'', PStr ''2023''), (''updated_at'', PStr ''2023''), (''is_logo'', PBool False)]] (\<lambda>p. None))) \<and>
   fst (set_logo ''m1'' (media_model_of [PDict [(''id'', PStr ''m1''), (''name'', PStr ''cross.png''), (''path'', PStr ''Images/m1.png''),
           (''category'', PStr ''Images''), (''tags'', PStr []), (''scaling'', PStr ''fit''),
           (''created_at'', PStr ''2023''), (''updated_at'', PStr ''2023''), (''is_logo'', PBool False)], PDict [(''id'', PStr ''m1''), (''name'', PStr ''dove.png''), (''path'', PStr ''Images/m2.png''),
           (''category'', PStr ''Images''), (''tags'', PStr []), (''scaling'', PStr ''fit''),
           (''created_at'', PStr ''2023''), (''updated_at'', PStr ''2023''), (''is_logo'', PBool False)]] (\<lambda>p. None))) = Inr True \<and>
   filter is_logo (media (snd (set_logo ''m1'' (media_model_of [PDict [(''id'', PStr ''m1''), (''name'', PStr ''cross.png''), (''path'', PStr ''Images/m1.png''),
           (''category'', PStr ''Images''), (''tags'', PStr []), (''scaling'', PStr ''fit''),
           (''created_at'', PStr ''2023''), (''updated_at'', PStr ''2023''), (''is_logo'', PBool False)], PDict [(''id'', PStr ''m1''), (''name'', PStr ''dove.png''), (''path'', PStr ''Images/m2.png''),
           (''category'', PStr ''Images''), (''tags'', PStr []), (''scaling'', PStr ''fit''),
           (''created_at'', PStr ''2023''), (''updated_at'', PStr ''2023''), (''is_logo'', PBool False)]] (\<lambda>p. None))))) =
     [PDict [(''id'', PStr ''m1''), (''name'', PStr ''cross.png''), (''path'', PStr ''Images/m1.png''),
           (''category'', PStr ''Images''), (''tags'', PStr []), (''scaling'', PStr ''fit''),
           (''created_at'', PStr ''2023''), (''updated_at'', PStr ''2023''), (''is_logo'', PBool True)], PDict [(''id'', PStr ''m1''), (''name'', PStr ''dove.png''), (''path'', PStr ''Images/m2.png''),
           (''category'', PStr ''Images''), (''tags'', PStr []), (''scaling'', PStr ''fit''),
           (''created_at'', PStr ''2023''), (''updated_at'', PStr ''2023''), (''is_logo'', PBool True)]] \<and>
   \<not> at_most_one_logo (media (snd (set_logo ''m1'' (media_model_of [PDict [(''id'', PStr ''m1''), (''name'', PStr ''cross.png''), (''path'', PStr ''Images/m1.png''),
           (''category'', PStr ''Images''), (''tags'', PStr []), (''scaling'', PStr ''fit''),
           (''created_at'', PStr ''2023''), (''updated_at'', PStr ''2023''), (''is_logo'', PBool False)], PDict [(''id'', PStr ''m1''), (''name'', PStr ''dove.png''), (''path'', PStr ''Images/m2.png''),
           (''category'', PStr ''Images''), (''tags'', PStr []), (''scaling'', PStr ''fit''),
           (''created_at'', PStr ''2023''), (''updated_at'', PStr ''2023''), (''is_logo'', PBool False)]] (\<lambda>p. None)))))"
  by code_simp

end
